theory Spec2Isabelle
  imports Main "HOL-Library.Word"
begin

section \<open>Errors\<close>

text \<open>
  Go errors are values. The sentinel errors of the repository are package variables made
  with \<^verbatim>\<open>errors.New\<close>; \<^verbatim>\<open>errors.Is\<close> recognises them by identity, so each one is a
  constructor of its own (two sentinels with the same text stay different). The last
  group are the sentinels of the JWT library that \<^verbatim>\<open>validateToken\<close> can receive.
\<close>

datatype sentinel =
    ErrNoToken
  | ErrInvalidToken
  | ErrInvalidTokenFormat
  | ErrExpiredToken
  | ErrRoleNotFound
  | ErrInvalidRole
  | ErrAccessDenied
  | ErrUserAlreadyExists
  | ErrInvalidCredentials
  | ErrUserNotFound
  | ErrItemNotFound
  | ErrNoItemsFound
  | ErrTokenMalformed
  | ErrTokenUnverifiable
  | ErrTokenSignatureInvalid
  | ErrTokenInvalidClaims
  | ErrTokenExpired
  | ErrTokenNotValidYet
  | ErrInvalidType

text \<open>
  \<^verbatim>\<open>fmt.Errorf(format, ...)\<close> makes a new error that carries its text and the errors
  passed for the \<^verbatim>\<open>%w\<close> verbs (none, one or several).
\<close>

datatype error =
    Sentinel sentinel
  | Errorf string "error list"

text \<open>\<^verbatim>\<open>errors.Is(err, target)\<close> for a sentinel target: walk the chain of wrapped errors.\<close>

fun errors_Is :: "error \<Rightarrow> sentinel \<Rightarrow> bool" where
  "errors_Is (Sentinel s) target = (s = target)"
| "errors_Is (Errorf msg es) target = list_ex (\<lambda>e. errors_Is e target) es"

section \<open>The request context and the response helpers\<close>

text \<open>
  \<^verbatim>\<open>uuid.UUID\<close> is an array of 16 bytes: a 128-bit word, most significant byte first.
  \<^verbatim>\<open>uuid.Nil\<close> is the all-zero value.
\<close>

type_synonym uuid = "128 word"

definition uuid_Nil :: uuid where
  "uuid_Nil = 0"

text \<open>
  The values a handler stores under a key of the Gin context have the type \<^verbatim>\<open>any\<close>;
  the type assertions of the source tell a UUID and a string from anything else.
\<close>

datatype ctx_value = VUUID uuid | VString string | VOther

text \<open>
  \<^verbatim>\<open>response.Error{Message: err.Error()}\<close> and \<^verbatim>\<open>response.Success{Result: ...}\<close>: the
  body keeps the error whose text is sent, or the result (here the string fields of the
  result object).
\<close>

datatype body = Error error | Success "(string \<times> string) list"

record response =
  status :: nat
  payload :: body

text \<open>
  The part of \<^verbatim>\<open>ginext.Context\<close> the middleware touches: the request headers, the keys
  set by \<^verbatim>\<open>c.Set\<close>, the response written by \<^verbatim>\<open>c.JSON\<close> and the abort flag set by
  \<^verbatim>\<open>c.Abort\<close>.
\<close>

record gin_context =
  headers :: "string \<rightharpoonup> string"
  keys :: "string \<rightharpoonup> ctx_value"
  written :: "response option"
  aborted :: bool

definition StatusOK :: nat where "StatusOK = 200"
definition StatusBadRequest :: nat where "StatusBadRequest = 400"
definition StatusUnauthorized :: nat where "StatusUnauthorized = 401"
definition StatusForbidden :: nat where "StatusForbidden = 403"
definition StatusNotFound :: nat where "StatusNotFound = 404"
definition StatusInternalServerError :: nat where "StatusInternalServerError = 500"

definition JSON :: "gin_context \<Rightarrow> nat \<Rightarrow> body \<Rightarrow> gin_context" where
  "JSON c st data = c\<lparr>written := Some \<lparr>status = st, payload = data\<rparr>\<rparr>"

definition Fail :: "gin_context \<Rightarrow> nat \<Rightarrow> error \<Rightarrow> gin_context" where
  "Fail c st err = JSON c st (Error err)"

definition Abort :: "gin_context \<Rightarrow> gin_context" where
  "Abort c = c\<lparr>aborted := True\<rparr>"

definition FailAbort :: "gin_context \<Rightarrow> nat \<Rightarrow> error \<Rightarrow> gin_context" where
  "FailAbort c st err = Abort (Fail c st err)"

definition GetHeader :: "gin_context \<Rightarrow> string \<Rightarrow> string" where
  "GetHeader c k = (case headers c k of None \<Rightarrow> [] | Some v \<Rightarrow> v)"

definition ctx_Get :: "gin_context \<Rightarrow> string \<Rightarrow> ctx_value option" where
  "ctx_Get c k = keys c k"

definition ctx_Set :: "gin_context \<Rightarrow> string \<Rightarrow> ctx_value \<Rightarrow> gin_context" where
  "ctx_Set c k v = c\<lparr>keys := (keys c)(k \<mapsto> v)\<rparr>"

section \<open>The role gate\<close>

text \<open>
  \<^verbatim>\<open>RequireRole(roles...)\<close> first builds the map \<^verbatim>\<open>allowed\<close> by a loop over its
  arguments, then returns the handler. A handler that ends in \<^verbatim>\<open>c.Next()\<close> hands the
  context to the rest of the chain: the model passes the rest of the chain as \<open>next\<close>.
\<close>

definition allowed_roles :: "string list \<Rightarrow> (string \<rightharpoonup> unit)" where
  "allowed_roles roles = foldl (\<lambda>allowed role. allowed(role \<mapsto> ())) Map.empty roles"

definition RequireRole :: "string list \<Rightarrow> (gin_context \<Rightarrow> gin_context) \<Rightarrow> gin_context \<Rightarrow> gin_context" where
  "RequireRole roles next c =
     (let allowed = allowed_roles roles in
      case ctx_Get c ''role'' of
        None \<Rightarrow> FailAbort c StatusForbidden (Sentinel ErrRoleNotFound)
      | Some roleVal \<Rightarrow>
          (case roleVal of
             VString role \<Rightarrow>
               (case allowed role of
                  None \<Rightarrow> FailAbort c StatusForbidden (Sentinel ErrAccessDenied)
                | Some _ \<Rightarrow> next c)
           | _ \<Rightarrow> FailAbort c StatusForbidden (Sentinel ErrInvalidRole)))"

section \<open>Strings and UUIDs\<close>

text \<open>
  \<^verbatim>\<open>strings.Split(s, sep)\<close> for a separator of one byte, which is how the repository
  (\<^verbatim>\<open>" "\<close> in \<^verbatim>\<open>Auth\<close>) uses it: the pieces between the separators, the empty ones
  included; a string without the separator is returned as the only piece.
\<close>

fun strings_Split :: "string \<Rightarrow> char \<Rightarrow> string list" where
  "strings_Split [] sep = [[]]"
| "strings_Split (c # cs) sep =
     (if c = sep then [] # strings_Split cs sep
      else (case strings_Split cs sep of
              [] \<Rightarrow> [[c]]
            | p # ps \<Rightarrow> (c # p) # ps))"

text \<open>
  \<^verbatim>\<open>UUID.String()\<close> of \<^verbatim>\<open>github.com/google/uuid\<close>: the 32 lower-case hexadecimal digits
  of the 16 bytes, grouped 8-4-4-4-12 with dashes.
\<close>

definition hexdigit :: "nat \<Rightarrow> char" where
  "hexdigit n = ''0123456789abcdef'' ! n"

fun hex_of :: "nat \<Rightarrow> nat \<Rightarrow> string" where
  "hex_of 0 n = []"
| "hex_of (Suc k) n = hex_of k (n div 16) @ [hexdigit (n mod 16)]"

definition uuid_String :: "uuid \<Rightarrow> string" where
  "uuid_String u =
     (let h = hex_of 32 (unat u) in
      take 8 h @ ''-'' @ take 4 (drop 8 h) @ ''-'' @ take 4 (drop 12 h) @ ''-'' @
      take 4 (drop 16 h) @ ''-'' @ drop 20 h)"

text \<open>
  \<^verbatim>\<open>uuid.Parse\<close>: the value of a hexadecimal digit of either case (the library's
  \<^verbatim>\<open>xvalues\<close> table), and the four accepted shapes, told apart by the length in bytes:
  the plain 36-byte form, the same after \<^verbatim>\<open>urn:uuid:\<close> (compared without case), the same
  between two bytes that are skipped, and 32 digits with no dashes.
\<close>

definition xvalue :: "char \<Rightarrow> nat option" where
  "xvalue c =
     (let n = of_char c :: nat in
      if 48 \<le> n \<and> n \<le> 57 then Some (n - 48)
      else if 97 \<le> n \<and> n \<le> 102 then Some (n - 87)
      else if 65 \<le> n \<and> n \<le> 70 then Some (n - 55)
      else None)"

fun unhex :: "nat \<Rightarrow> string \<Rightarrow> nat option" where
  "unhex acc [] = Some acc"
| "unhex acc (c # cs) =
     (case xvalue c of None \<Rightarrow> None | Some d \<Rightarrow> unhex (16 * acc + d) cs)"

definition to_lower :: "char \<Rightarrow> char" where
  "to_lower c =
     (let n = of_char c :: nat in if 65 \<le> n \<and> n \<le> 90 then char_of (n + 32) else c)"

definition parse_dashed :: "string \<Rightarrow> uuid option" where
  "parse_dashed s =
     (if s ! 8 \<noteq> CHR ''-'' \<or> s ! 13 \<noteq> CHR ''-'' \<or> s ! 18 \<noteq> CHR ''-'' \<or> s ! 23 \<noteq> CHR ''-''
      then None
      else map_option of_nat
             (unhex 0 (take 8 s @ take 4 (drop 9 s) @ take 4 (drop 14 s) @
                       take 4 (drop 19 s) @ take 12 (drop 24 s))))"

definition uuid_Parse :: "string \<Rightarrow> uuid option" where
  "uuid_Parse s =
     (if length s = 36 then parse_dashed s
      else if length s = 36 + 9 then
        (if map to_lower (take 9 s) = ''urn:uuid:'' then parse_dashed (drop 9 s) else None)
      else if length s = 36 + 2 then parse_dashed (drop 1 s)
      else if length s = 32 then map_option of_nat (unhex 0 s)
      else None)"

section \<open>The token library\<close>

text \<open>
  The claims of a token are a JSON object (\<^verbatim>\<open>jwt.MapClaims\<close>): strings, numbers (whole
  seconds, for the dates) and the values that are neither.
\<close>

datatype json = JString string | JNumber int | JOther

text \<open>
  A signing method is of the HMAC family (\<^verbatim>\<open>*jwt.SigningMethodHMAC\<close>: HS256, HS384,
  HS512) or it is not (\<^verbatim>\<open>none\<close>, the RSA, ECDSA and EdDSA methods); either carries the
  name of its algorithm.
\<close>

datatype signing_method = SigningMethodHMAC string | SigningMethodOther string

definition SigningMethodHS256 :: signing_method where
  "SigningMethodHS256 = SigningMethodHMAC ''HS256''"

text \<open>
  \<^verbatim>\<open>jwt.Token\<close>: the method named by the header, the claims, the text the signature is
  computed over (the first two segments of the token string), the signature, and the flag
  \<^verbatim>\<open>Valid\<close> that the parser sets once every check has passed.
\<close>

record jwt_Token =
  Method :: signing_method
  Claims :: "string \<rightharpoonup> json"
  signing_input :: string
  Signature :: string
  Valid :: bool

text \<open>
  Points in time are nanoseconds since the Unix epoch (\<^verbatim>\<open>time.Time\<close>), durations are
  nanoseconds (\<^verbatim>\<open>time.Duration\<close>); \<^verbatim>\<open>Time.Unix()\<close> is the number of whole seconds.
\<close>

type_synonym time = int

definition Second :: int where
  "Second = 1000000000"

definition Unix :: "time \<Rightarrow> int" where
  "Unix t = t div Second"

text \<open>
  Modelled from the spec: \<^verbatim>\<open>github.com/golang-jwt/jwt/v5\<close> is a library outside the
  repository. Its wire format is opaque (spec 6: a compact signed structure, opaque
  beyond base64-style encoding), so the serialiser, the parser of the segments and the
  keyed hash are the fields of a record and every theorem says what it needs of them:
  \<^item> \<open>ParseUnverified\<close> splits and decodes a token string into header method, claims,
    signed text and signature, or fails on a malformed string or an unknown algorithm;
  \<^item> \<open>SigningString\<close> is the text to sign for a method and claims,
    \<open>EncodeSegment\<close> the encoding of the signature segment;
  \<^item> \<open>HMAC\<close> is the keyed hash of an algorithm name, a key and a text.
\<close>

record jwt_library =
  ParseUnverified :: "string \<Rightarrow> error + jwt_Token"
  SigningString :: "signing_method \<Rightarrow> (string \<rightharpoonup> json) \<Rightarrow> error + string"
  EncodeSegment :: "string \<Rightarrow> string"
  HMAC :: "string \<Rightarrow> string \<Rightarrow> string \<Rightarrow> string"

text \<open>
  Modelled from the spec: \<^verbatim>\<open>Method.Verify\<close>, the signature check of spec 4.2. The key
  the key function returns is a byte string; an HMAC method accepts the signature that
  is the keyed hash of the signed text, and no other method accepts a byte-string key.
\<close>

fun Verify :: "jwt_library \<Rightarrow> signing_method \<Rightarrow> string \<Rightarrow> string \<Rightarrow> string \<Rightarrow> bool" where
  "Verify L (SigningMethodHMAC alg) signingString sig key = (sig = HMAC L alg key signingString)"
| "Verify L (SigningMethodOther alg) signingString sig key = False"

text \<open>
  Modelled from the spec: the validation of the claims (spec 4.2: checks
  \<^verbatim>\<open>expires_at > now\<close>). A token without the claim \<^verbatim>\<open>exp\<close> has nothing to check; a
  date that is not a number is an invalid claim.
\<close>

definition Validate :: "time \<Rightarrow> (string \<rightharpoonup> json) \<Rightarrow> error option" where
  "Validate now claims =
     (case claims ''exp'' of
        None \<Rightarrow> None
      | Some (JNumber exp) \<Rightarrow>
          (if now < exp * Second then None else Some (Sentinel ErrTokenExpired))
      | Some _ \<Rightarrow> Some (Errorf ''exp is invalid'' [Sentinel ErrInvalidType]))"

text \<open>
  Modelled from the spec: \<^verbatim>\<open>jwt.Parse(tokenString, keyFunc)\<close>, in the order of spec 4.2:
  parse the token, ask the key function for the key (it is the key function that checks
  the algorithm), check the signature, check the expiry; the library wraps the error of
  each step in the kind of the step. \<open>now\<close> is the clock at the time of the check.
\<close>

definition jwt_Parse ::
  "jwt_library \<Rightarrow> time \<Rightarrow> string \<Rightarrow> (jwt_Token \<Rightarrow> error + string) \<Rightarrow> error + jwt_Token" where
  "jwt_Parse L now tokenString keyFunc =
     (case ParseUnverified L tokenString of
        Inl err \<Rightarrow> Inl err
      | Inr token \<Rightarrow>
          (case keyFunc token of
             Inl err \<Rightarrow>
               Inl (Errorf ''error while executing keyfunc'' [Sentinel ErrTokenUnverifiable, err])
           | Inr key \<Rightarrow>
               (if \<not> Verify L (Method token) (signing_input token) (Signature token) key
                then Inl (Errorf [] [Sentinel ErrTokenSignatureInvalid])
                else (case Validate now (Claims token) of
                        Some err \<Rightarrow> Inl (Errorf [] [Sentinel ErrTokenInvalidClaims, err])
                      | None \<Rightarrow> Inr (token\<lparr>Valid := True\<rparr>)))))"

text \<open>
  Modelled from the spec: \<^verbatim>\<open>jwt.NewWithClaims(method, claims).SignedString(key)\<close>, the
  issue of spec 4.2: the signed text, a dot, the encoded signature.
\<close>

definition SignedString ::
  "jwt_library \<Rightarrow> signing_method \<Rightarrow> (string \<rightharpoonup> json) \<Rightarrow> string \<Rightarrow> error + string" where
  "SignedString L method claims key =
     (case SigningString L method claims of
        Inl err \<Rightarrow> Inl err
      | Inr sstr \<Rightarrow>
          (case method of
             SigningMethodHMAC alg \<Rightarrow> Inr (sstr @ ''.'' @ EncodeSegment L (HMAC L alg key sstr))
           | SigningMethodOther alg \<Rightarrow> Inl (Errorf ''key is of invalid type'' [])))"

section \<open>Token verification and the authentication middleware\<close>

text \<open>
  The key function that \<^verbatim>\<open>validateToken\<close> hands to \<^verbatim>\<open>jwt.Parse\<close>: a method that is not
  of the HMAC family is refused with \<^verbatim>\<open>ErrInvalidToken\<close>, any other gets the secret.
\<close>

definition keyFunc :: "string \<Rightarrow> jwt_Token \<Rightarrow> error + string" where
  "keyFunc secret token =
     (case Method token of
        SigningMethodHMAC alg \<Rightarrow> Inr secret
      | SigningMethodOther alg \<Rightarrow> Inl (Sentinel ErrInvalidToken))"

text \<open>
  \<^verbatim>\<open>validateToken\<close> returns the three values of the Go function: the user id, the role
  and the error (\<open>None\<close> for \<^verbatim>\<open>nil\<close>). \<^verbatim>\<open>jwt.Parse\<close> always builds \<^verbatim>\<open>jwt.MapClaims\<close>, so
  of the test \<^verbatim>\<open>!ok || !token.Valid\<close> the flag \<open>Valid\<close> remains.
\<close>

definition validateToken ::
  "jwt_library \<Rightarrow> time \<Rightarrow> string \<Rightarrow> string \<Rightarrow> uuid \<times> string \<times> error option" where
  "validateToken L now tokenStr secret =
     (case jwt_Parse L now tokenStr (keyFunc secret) of
        Inl err \<Rightarrow>
          (if errors_Is err ErrTokenExpired
           then (uuid_Nil, [], Some (Sentinel ErrExpiredToken))
           else (uuid_Nil, [], Some err))
      | Inr token \<Rightarrow>
          (if \<not> Valid token then (uuid_Nil, [], Some (Sentinel ErrInvalidToken))
           else
             (case Claims token ''user_id'' of
                Some (JString userIDStr) \<Rightarrow>
                  (case uuid_Parse userIDStr of
                     None \<Rightarrow> (uuid_Nil, [], Some (Sentinel ErrInvalidToken))
                   | Some userID \<Rightarrow>
                       (case Claims token ''role'' of
                          Some (JString role) \<Rightarrow> (userID, role, None)
                        | _ \<Rightarrow> (uuid_Nil, [], Some (Sentinel ErrInvalidToken))))
              | _ \<Rightarrow> (uuid_Nil, [], Some (Sentinel ErrInvalidToken)))))"

text \<open>
  \<^verbatim>\<open>Auth(secret, ttl)\<close>: the handler reads the header \<^verbatim>\<open>Authorization\<close>, splits it at
  the spaces, verifies the second part and stores the user id and the role in the
  context before it calls \<^verbatim>\<open>c.Next()\<close>. The parameter \<open>ttl\<close> is not used by the source
  either.
\<close>

definition Auth ::
  "jwt_library \<Rightarrow> time \<Rightarrow> string \<Rightarrow> int \<Rightarrow> (gin_context \<Rightarrow> gin_context) \<Rightarrow> gin_context
     \<Rightarrow> gin_context" where
  "Auth L now secret ttl next c =
     (let tokenStr = GetHeader c ''Authorization'' in
      if tokenStr = [] then FailAbort c StatusUnauthorized (Sentinel ErrNoToken)
      else
        (case strings_Split tokenStr CHR '' '' of
           [scheme, tok] \<Rightarrow>
             (if scheme \<noteq> ''Bearer''
              then FailAbort c StatusUnauthorized (Sentinel ErrInvalidTokenFormat)
              else
                (case validateToken L now tok secret of
                   (userID, role, Some err) \<Rightarrow> FailAbort c StatusUnauthorized err
                 | (userID, role, None) \<Rightarrow>
                     next (ctx_Set (ctx_Set c ''userID'' (VUUID userID)) ''role'' (VString role))))
         | _ \<Rightarrow> FailAbort c StatusUnauthorized (Sentinel ErrInvalidTokenFormat)))"

section \<open>The user repository\<close>

text \<open>\<^verbatim>\<open>model.User\<close>, a row of the table \<^verbatim>\<open>users\<close>.\<close>

record User =
  ID :: uuid
  Username :: string
  PasswordHash :: string
  Role :: string
  CreatedAt :: time

text \<open>
  The database as the user repository sees it: the rows of \<^verbatim>\<open>users\<close>; the error every
  statement meets while the connection is broken (\<open>None\<close> while it works); and what the
  server itself supplies to an insert, the values of \<^verbatim>\<open>gen_random_uuid()\<close> (the
  \<open>id_count\<close>-th value of \<open>id_source\<close> is the next one) and of \<^verbatim>\<open>NOW()\<close>.
\<close>

record database =
  users :: "User list"
  fault :: "error option"
  id_source :: "nat \<Rightarrow> uuid"
  id_count :: nat
  db_now :: time



text \<open>\<^verbatim>\<open>GetUserByUsername\<close>: the row with the username, or \<^verbatim>\<open>ErrUserNotFound\<close>.\<close>

definition GetUserByUsername :: "database \<Rightarrow> string \<Rightarrow> error + User" where
  "GetUserByUsername db username =
     (case fault db of
        Some err \<Rightarrow> Inl (Errorf ''failed to get user by username: %w'' [err])
      | None \<Rightarrow>
          (case find (\<lambda>u. Username u = username) (users db) of
             None \<Rightarrow> Inl (Sentinel ErrUserNotFound)
           | Some user \<Rightarrow> Inr user))"


section \<open>The user service\<close>

text \<open>
  Modelled from the spec: \<^verbatim>\<open>golang.org/x/crypto/bcrypt\<close> is a library outside the
  repository; spec 4.1 gives its contract. \<open>GenerateFromPassword\<close> takes the bytes it
  draws from the random source, the password and the cost, and fails or gives a hash;
  \<open>CompareHashAndPassword\<close> takes a hash and a password and gives an error unless they
  match.
\<close>

record bcrypt_library =
  GenerateFromPassword :: "string \<Rightarrow> string \<Rightarrow> nat \<Rightarrow> error + string"
  CompareHashAndPassword :: "string \<Rightarrow> string \<Rightarrow> error option"



definition verifyPassword :: "bcrypt_library \<Rightarrow> string \<Rightarrow> string \<Rightarrow> error option" where
  "verifyPassword B password hash = CompareHashAndPassword B hash password"

text \<open>\<^verbatim>\<open>config.JWT\<close>: the secret and the time to live of a token.\<close>

record JWT =
  Secret :: string
  TTL :: int


text \<open>
  \<^verbatim>\<open>generateToken\<close> reads the clock twice: \<open>t1\<close> is the reading the expiry is computed
  from, \<open>t2\<close> the later reading that becomes \<^verbatim>\<open>iat\<close>. \<open>token_claims\<close> is the
  \<^verbatim>\<open>jwt.MapClaims\<close> literal.
\<close>

definition token_claims :: "User \<Rightarrow> time \<Rightarrow> time \<Rightarrow> int \<Rightarrow> (string \<rightharpoonup> json)" where
  "token_claims user t1 t2 ttl =
     (let expTime = t1 + ttl in
      [''user_id'' \<mapsto> JString (uuid_String (ID user)),
       ''username'' \<mapsto> JString (Username user),
       ''role'' \<mapsto> JString (Role user),
       ''exp'' \<mapsto> JNumber (Unix expTime),
       ''iat'' \<mapsto> JNumber (Unix t2)])"

definition generateToken ::
  "jwt_library \<Rightarrow> time \<Rightarrow> time \<Rightarrow> User \<Rightarrow> string \<Rightarrow> int \<Rightarrow> error + string" where
  "generateToken L t1 t2 user secret ttl =
     SignedString L SigningMethodHS256 (token_claims user t1 t2 ttl) secret"

text \<open>\<^verbatim>\<open>Service.Login\<close>.\<close>

definition Login ::
  "jwt_library \<Rightarrow> bcrypt_library \<Rightarrow> JWT \<Rightarrow> time \<Rightarrow> time \<Rightarrow> database \<Rightarrow> string \<Rightarrow> string
     \<Rightarrow> error + string" where
  "Login L B cfg t1 t2 db username password =
     (case GetUserByUsername db username of
        Inl err \<Rightarrow>
          (if errors_Is err ErrUserNotFound then Inl (Sentinel ErrInvalidCredentials)
           else Inl (Errorf ''get user by username: %w'' [err]))
      | Inr user \<Rightarrow>
          (case verifyPassword B password (PasswordHash user) of
             Some err \<Rightarrow> Inl (Sentinel ErrInvalidCredentials)
           | None \<Rightarrow>
               (case generateToken L t1 t2 user (Secret cfg) (TTL cfg) of
                  Inl err \<Rightarrow> Inl (Errorf ''generate token: %w'' [err])
                | Inr token \<Rightarrow> Inr token)))"

section \<open>The authentication handlers\<close>


record LoginRequest =
  login_Username :: string
  login_Password :: string

definition OK :: "gin_context \<Rightarrow> (string \<times> string) list \<Rightarrow> gin_context" where
  "OK c result = JSON c StatusOK (Success result)"



definition Handler_Login ::
  "jwt_library \<Rightarrow> bcrypt_library \<Rightarrow> JWT \<Rightarrow> time \<Rightarrow> time \<Rightarrow> database \<Rightarrow> LoginRequest option
     \<Rightarrow> gin_context \<Rightarrow> gin_context" where
  "Handler_Login L B cfg t1 t2 db body c =
     (case body of
        None \<Rightarrow> Fail c StatusBadRequest (Errorf ''invalid request body'' [])
      | Some req \<Rightarrow>
          (if login_Username req = [] \<or> login_Password req = []
           then Fail c StatusBadRequest (Errorf ''validation error: %s'' [])
           else
             (case Login L B cfg t1 t2 db (login_Username req) (login_Password req) of
                Inl err \<Rightarrow>
                  (if errors_Is err ErrInvalidCredentials
                   then Fail c StatusUnauthorized (Errorf ''invalid credentials'' [])
                   else if errors_Is err ErrUserNotFound
                   then Fail c StatusNotFound (Errorf ''user not found'' [])
                   else Fail c StatusInternalServerError (Errorf ''internal server error'' []))
              | Inr token \<Rightarrow> OK c [(''token'', token)])))"

section \<open>The item repository and the item service\<close>

text \<open>
  \<^verbatim>\<open>decimal.Decimal\<close> is a coefficient and a power of ten; \<^verbatim>\<open>model.Item\<close> is a row of
  the table \<^verbatim>\<open>items\<close>.
\<close>

record Decimal =
  coefficient :: int
  exponent :: int

record Item =
  item_ID :: uuid
  Name :: string
  Description :: string
  Quantity :: int
  Price :: Decimal
  item_CreatedAt :: time
  UpdatedAt :: time

text \<open>
  The statements that the item repository sends over its connection, in the order they
  are sent. \<open>Stmt_SetCurrentUser\<close> is the statement of \<^verbatim>\<open>Repository.SetCurrentUser\<close>,
  \<^verbatim>\<open>SELECT set_config('app.current_user_id', $1, false)\<close>, whose value the triggers of the
  table \<^verbatim>\<open>items\<close> write into \<^verbatim>\<open>item_history.changed_by\<close>.
\<close>

datatype statement =
    Stmt_InsertItem Item
  | Stmt_UpdateItem Item
  | Stmt_DeleteItem uuid
  | Stmt_SetCurrentUser string

text \<open>
  What the server answers to a statement: an error, or the returned row of an insert, or
  the number of rows a statement changed (which the driver may fail to report).
\<close>

datatype answer =
    Failed error
  | Returned uuid time time
  | RowsAffected nat
  | RowsAffectedFailed error

text \<open>
  The connection: the statements sent so far and the server's answer to each statement
  (the server, its tables and its triggers are behind this function).
\<close>

record connection =
  sent :: "statement list"
  server :: "statement list \<Rightarrow> statement \<Rightarrow> answer"

definition exec :: "connection \<Rightarrow> statement \<Rightarrow> answer \<times> connection" where
  "exec conn stmt = (server conn (sent conn) stmt, conn\<lparr>sent := sent conn @ [stmt]\<rparr>)"

definition CreateItem :: "connection \<Rightarrow> Item \<Rightarrow> (error + uuid) \<times> connection" where
  "CreateItem conn item =
     (case exec conn (Stmt_InsertItem item) of
        (Returned newID createdAt updatedAt, conn') \<Rightarrow> (Inr newID, conn')
      | (Failed err, conn') \<Rightarrow> (Inl (Errorf ''failed to create item: %w'' [err]), conn')
      | (_, conn') \<Rightarrow>
          (Inl (Errorf ''failed to create item: %w'' [Errorf ''sql: no rows in result set'' []]),
           conn'))"

definition UpdateItem :: "connection \<Rightarrow> Item \<Rightarrow> error option \<times> connection" where
  "UpdateItem conn item =
     (case exec conn (Stmt_UpdateItem item) of
        (Failed err, conn') \<Rightarrow> (Some (Errorf ''failed to update item: %w'' [err]), conn')
      | (RowsAffectedFailed err, conn') \<Rightarrow>
          (Some (Errorf ''failed to get rows affected: %w'' [err]), conn')
      | (RowsAffected n, conn') \<Rightarrow>
          (if n = 0 then (Some (Sentinel ErrItemNotFound), conn') else (None, conn'))
      | (Returned _ _ _, conn') \<Rightarrow> (None, conn'))"

definition DeleteItem :: "connection \<Rightarrow> uuid \<Rightarrow> error option \<times> connection" where
  "DeleteItem conn itemID =
     (case exec conn (Stmt_DeleteItem itemID) of
        (Failed err, conn') \<Rightarrow> (Some (Errorf ''failed to delete item: %w'' [err]), conn')
      | (RowsAffectedFailed err, conn') \<Rightarrow>
          (Some (Errorf ''failed to get rows affected: %w'' [err]), conn')
      | (RowsAffected n, conn') \<Rightarrow>
          (if n = 0 then (Some (Sentinel ErrItemNotFound), conn') else (None, conn'))
      | (Returned _ _ _, conn') \<Rightarrow> (None, conn'))"

definition SetCurrentUser :: "connection \<Rightarrow> uuid \<Rightarrow> error option \<times> connection" where
  "SetCurrentUser conn userID =
     (case exec conn (Stmt_SetCurrentUser (uuid_String userID)) of
        (Failed err, conn') \<Rightarrow> (Some (Errorf ''failed to set current_user_id: %w'' [err]), conn')
      | (_, conn') \<Rightarrow> (None, conn'))"

text \<open>
  \<^verbatim>\<open>Service.Create\<close>, \<^verbatim>\<open>Service.Update\<close> and \<^verbatim>\<open>Service.Delete\<close> of
  \<^verbatim>\<open>internal/service/item/service.go\<close>. They take no user id, and the interface
  \<^verbatim>\<open>repository\<close> through which they reach the repository has no \<^verbatim>\<open>SetCurrentUser\<close>.
\<close>

definition Service_Create ::
  "connection \<Rightarrow> string \<Rightarrow> string \<Rightarrow> int \<Rightarrow> Decimal \<Rightarrow> (error + uuid) \<times> connection" where
  "Service_Create conn name description quantity price =
     (let item = \<lparr>item_ID = uuid_Nil, Name = name, Description = description,
                  Quantity = quantity, Price = price, item_CreatedAt = 0, UpdatedAt = 0\<rparr> in
      case CreateItem conn item of
        (Inl err, conn') \<Rightarrow> (Inl (Errorf ''create item: %w'' [err]), conn')
      | (Inr newID, conn') \<Rightarrow> (Inr newID, conn'))"

definition Service_Update ::
  "connection \<Rightarrow> uuid \<Rightarrow> string \<Rightarrow> string \<Rightarrow> int \<Rightarrow> Decimal \<Rightarrow> error option \<times> connection" where
  "Service_Update conn itemID name description quantity price =
     (let item = \<lparr>item_ID = itemID, Name = name, Description = description,
                  Quantity = quantity, Price = price, item_CreatedAt = 0, UpdatedAt = 0\<rparr> in
      case UpdateItem conn item of
        (Some err, conn') \<Rightarrow> (Some (Errorf ''update item: %w'' [err]), conn')
      | (None, conn') \<Rightarrow> (None, conn'))"

definition Service_Delete :: "connection \<Rightarrow> uuid \<Rightarrow> error option \<times> connection" where
  "Service_Delete conn itemID =
     (case DeleteItem conn itemID of
        (Some err, conn') \<Rightarrow> (Some (Errorf ''delete item: %w'' [err]), conn')
      | (None, conn') \<Rightarrow> (None, conn'))"

section \<open>The contract between serialiser and parser\<close>


section \<open>An instance of the libraries\<close>

text \<open>
  A small instance of the library parameters, on which the theorems below are exercised:
  the keyed hash writes out algorithm, key and text; the parser knows four token strings
  (the token of a login of alice, a token of the method none, a token signed with another
  secret, a token without the claim user_id); the hasher keeps the password after the
  salt. The store is empty, or holds the row of alice.
\<close>

definition demo_HMAC :: "string \<Rightarrow> string \<Rightarrow> string \<Rightarrow> string" where
  "demo_HMAC alg key text = alg @ ''/'' @ key @ ''/'' @ text"

definition demo_row :: User where
  "demo_row = \<lparr>ID = 7, Username = ''alice'', PasswordHash = ''salt$pw1'', Role = ''admin'',
                CreatedAt = 0\<rparr>"

definition demo_claims :: "string \<rightharpoonup> json" where
  "demo_claims = token_claims demo_row (1000 * Second) (1000 * Second) (3600 * Second)"

definition demo_tokens :: "(string \<times> jwt_Token) list" where
  "demo_tokens =
     [(''hdr.login.HS256/s3cret/hdr.login'',
       \<lparr>Method = SigningMethodHS256, Claims = demo_claims, signing_input = ''hdr.login'',
        Signature = demo_HMAC ''HS256'' ''s3cret'' ''hdr.login'', Valid = False\<rparr>),
      (''hdr.none.'',
       \<lparr>Method = SigningMethodOther ''none'', Claims = demo_claims,
        signing_input = ''hdr.none'', Signature = [], Valid = False\<rparr>),
      (''hdr.forged.HS256/guess/hdr.forged'',
       \<lparr>Method = SigningMethodHS256, Claims = demo_claims, signing_input = ''hdr.forged'',
        Signature = demo_HMAC ''HS256'' ''guess'' ''hdr.forged'', Valid = False\<rparr>),
      (''hdr.nouser.HS256/s3cret/hdr.nouser'',
       \<lparr>Method = SigningMethodHS256, Claims = [''role'' \<mapsto> JString ''admin''],
        signing_input = ''hdr.nouser'',
        Signature = demo_HMAC ''HS256'' ''s3cret'' ''hdr.nouser'', Valid = False\<rparr>)]"

definition demo_library :: jwt_library where
  "demo_library =
     \<lparr>ParseUnverified =
        (\<lambda>s. case map_of demo_tokens s of
               None \<Rightarrow> Inl (Errorf ''token is malformed'' [Sentinel ErrTokenMalformed])
             | Some t \<Rightarrow> Inr t),
      SigningString = (\<lambda>method claims. Inr ''hdr.login''),
      EncodeSegment = (\<lambda>sig. sig),
      HMAC = demo_HMAC\<rparr>"

definition demo_bcrypt :: bcrypt_library where
  "demo_bcrypt =
     \<lparr>GenerateFromPassword = (\<lambda>entropy password cost. Inr (entropy @ ''$'' @ password)),
      CompareHashAndPassword =
        (\<lambda>hash password.
           if dropWhile (\<lambda>c. c \<noteq> CHR ''$'') hash = CHR ''$'' # password then None
           else Some (Errorf ''hashedPassword is not the hash of the given password'' []))\<rparr>"

definition demo_db :: database where
  "demo_db = \<lparr>users = [], fault = None, id_source = (\<lambda>n. 7 + of_nat n), id_count = 0,
               db_now = 0\<rparr>"

definition demo_cfg :: JWT where
  "demo_cfg = \<lparr>Secret = ''s3cret'', TTL = 3600 * Second\<rparr>"

definition demo_context :: "string \<Rightarrow> gin_context" where
  "demo_context authorization =
     \<lparr>headers = [''Authorization'' \<mapsto> authorization], keys = Map.empty, written = None,
      aborted = False\<rparr>"

definition demo_db_alice :: database where
  "demo_db_alice = demo_db\<lparr>id_count := 1, users := [demo_row]\<rparr>"

section \<open>Properties of the role gate\<close>

lemma allowed_roles_foldl:
  "foldl (\<lambda>allowed role. allowed(role \<mapsto> ())) m roles r =
     (if r \<in> set roles then Some () else m r)"
  by (induction roles arbitrary: m) auto

lemma allowed_roles_member:
  "allowed_roles roles r = (if r \<in> set roles then Some () else None)"
  by (simp add: allowed_roles_def allowed_roles_foldl)

text \<open>
  C3. Whatever the request context and whatever the list of permitted roles: with no
  value under the key "role" the gate writes 403 with ErrRoleNotFound and aborts; with a
  role string that is not among the permitted ones it writes 403 with ErrAccessDenied and
  aborts (the role "admin" is treated like any other string); with a role string among
  the permitted ones the context goes unchanged to the rest of the chain.
\<close>

theorem C3_role_gate:
  "(ctx_Get c ''role'' = None \<longrightarrow>
      RequireRole roles next c = FailAbort c 403 (Sentinel ErrRoleNotFound)) \<and>
   (ctx_Get c ''role'' = Some (VString r) \<and> r \<notin> set roles \<longrightarrow>
      RequireRole roles next c = FailAbort c 403 (Sentinel ErrAccessDenied)) \<and>
   (ctx_Get c ''role'' = Some (VString r) \<and> r \<in> set roles \<longrightarrow>
      RequireRole roles next c = next c)"
  by (simp add: RequireRole_def allowed_roles_member StatusForbidden_def)

theorem C3_role_gate_witness:
  "RequireRole [''admin'', ''manager''] (\<lambda>c. ctx_Set c ''reached'' VOther)
     \<lparr>headers = Map.empty, keys = Map.empty, written = None, aborted = False\<rparr>
     = FailAbort \<lparr>headers = Map.empty, keys = Map.empty, written = None, aborted = False\<rparr>
         403 (Sentinel ErrRoleNotFound) \<and>
   RequireRole [''manager''] (\<lambda>c. ctx_Set c ''reached'' VOther)
     \<lparr>headers = Map.empty, keys = [''role'' \<mapsto> VString ''admin''], written = None,
      aborted = False\<rparr>
     = FailAbort \<lparr>headers = Map.empty, keys = [''role'' \<mapsto> VString ''admin''],
         written = None, aborted = False\<rparr> 403 (Sentinel ErrAccessDenied) \<and>
   RequireRole [''admin'', ''manager''] (\<lambda>c. ctx_Set c ''reached'' VOther)
     \<lparr>headers = Map.empty, keys = [''role'' \<mapsto> VString ''manager''], written = None,
      aborted = False\<rparr>
     = ctx_Set \<lparr>headers = Map.empty, keys = [''role'' \<mapsto> VString ''manager''],
         written = None, aborted = False\<rparr> ''reached'' VOther"
  using
    C3_role_gate [of "\<lparr>headers = Map.empty, keys = Map.empty, written = None, aborted = False\<rparr>"
      "[''admin'', ''manager'']" "\<lambda>c. ctx_Set c ''reached'' VOther" "''x''"]
    C3_role_gate [of "\<lparr>headers = Map.empty, keys = [''role'' \<mapsto> VString ''admin''],
      written = None, aborted = False\<rparr>"
      "[''manager'']" "\<lambda>c. ctx_Set c ''reached'' VOther" "''admin''"]
    C3_role_gate [of "\<lparr>headers = Map.empty, keys = [''role'' \<mapsto> VString ''manager''],
      written = None, aborted = False\<rparr>"
      "[''admin'', ''manager'']" "\<lambda>c. ctx_Set c ''reached'' VOther" "''manager''"]
  by (simp add: ctx_Get_def)


section \<open>Properties of the UUID text form\<close>

lemma length_hex_of: "length (hex_of k n) = k"
  by (induction k arbitrary: n) auto

lemma xvalue_hexdigit: "n < 16 \<Longrightarrow> xvalue (hexdigit n) = Some n"
proof -
  assume "n < 16"
  have "list_all (\<lambda>k. xvalue (hexdigit k) = Some k) [0..<16]"
    by (simp add: upt_rec hexdigit_def xvalue_def)
  with \<open>n < 16\<close> show ?thesis
    by (simp add: list_all_iff)
qed

lemma unhex_append:
  "unhex acc (xs @ ys) = (case unhex acc xs of None \<Rightarrow> None | Some a \<Rightarrow> unhex a ys)"
  by (induction xs arbitrary: acc) (auto split: option.splits)

lemma unhex_hex_of: "unhex acc (hex_of k n) = Some (acc * 16 ^ k + n mod 16 ^ k)"
proof (induction k arbitrary: n acc)
  case 0
  then show ?case by simp
next
  case (Suc k)
  have "n mod (16 * 16 ^ k) = 16 * (n div 16 mod 16 ^ k) + n mod 16"
    by (simp add: mod_mult2_eq)
  then show ?case
    by (simp add: unhex_append Suc xvalue_hexdigit algebra_simps)
qed

lemma split_five:
  assumes "length h = 32"
  obtains a b c d e where "h = a @ b @ c @ d @ e" "length a = 8" "length b = 4"
    "length c = 4" "length d = 4" "length e = 12"
proof
  have 1: "take 4 (drop 16 h) @ drop 20 h = drop 16 h"
    using append_take_drop_id [of 4 "drop 16 h"] by simp
  have 2: "take 4 (drop 12 h) @ drop 16 h = drop 12 h"
    using append_take_drop_id [of 4 "drop 12 h"] by simp
  have 3: "take 4 (drop 8 h) @ drop 12 h = drop 8 h"
    using append_take_drop_id [of 4 "drop 8 h"] by simp
  show "h = take 8 h @ take 4 (drop 8 h) @ take 4 (drop 12 h) @ take 4 (drop 16 h) @ drop 20 h"
    by (simp only: 1 2 3 append_take_drop_id)
qed (use assms in auto)

lemma parse_dashed_groups:
  assumes "length a = 8" "length b = 4" "length c = 4" "length d = 4" "length e = 12"
  shows "parse_dashed (a @ CHR ''-'' # b @ CHR ''-'' # c @ CHR ''-'' # d @ CHR ''-'' # e)
         = map_option of_nat (unhex 0 (a @ b @ c @ d @ e))"
  using assms by (simp add: parse_dashed_def nth_append)

lemma uuid_Parse_String: "uuid_Parse (uuid_String u) = Some u"
proof -
  obtain a b c d e where h: "hex_of 32 (unat u) = a @ b @ c @ d @ e"
    and l: "length a = 8" "length b = 4" "length c = 4" "length d = 4" "length e = 12"
    using split_five [OF length_hex_of [of 32 "unat u"]] by blast
  have s: "uuid_String u = a @ ''-'' @ b @ ''-'' @ c @ ''-'' @ d @ ''-'' @ e"
    using l by (simp add: uuid_String_def h)
  have "unat u < 2 ^ 128"
    using unsigned_less [of u] by simp
  then have "unat u < 16 ^ 32"
    by simp
  then have m: "unat u mod 16 ^ 32 = unat u"
    by (rule mod_less)
  have "unhex 0 (hex_of 32 (unat u)) = Some (0 * 16 ^ 32 + unat u mod 16 ^ 32)"
    by (rule unhex_hex_of)
  then have "unhex 0 (a @ b @ c @ d @ e) = Some (unat u)"
    unfolding m h by simp
  then show ?thesis
    using l by (simp add: uuid_Parse_def s parse_dashed_groups)
qed

section \<open>The instance evaluated\<close>

lemma demo_parse_login:
  "ParseUnverified demo_library ''hdr.login.HS256/s3cret/hdr.login'' =
     Inr \<lparr>Method = SigningMethodHS256, Claims = demo_claims, signing_input = ''hdr.login'',
        Signature = demo_HMAC ''HS256'' ''s3cret'' ''hdr.login'', Valid = False\<rparr>"
  by (simp add: demo_library_def demo_tokens_def)

lemma demo_parse_none:
  "ParseUnverified demo_library ''hdr.none.'' =
     Inr \<lparr>Method = SigningMethodOther ''none'', Claims = demo_claims,
        signing_input = ''hdr.none'', Signature = [], Valid = False\<rparr>"
  by (simp add: demo_library_def demo_tokens_def)

lemma demo_parse_forged:
  "ParseUnverified demo_library ''hdr.forged.HS256/guess/hdr.forged'' =
     Inr \<lparr>Method = SigningMethodHS256, Claims = demo_claims, signing_input = ''hdr.forged'',
        Signature = demo_HMAC ''HS256'' ''guess'' ''hdr.forged'', Valid = False\<rparr>"
  by (simp add: demo_library_def demo_tokens_def)

lemma demo_parse_nouser:
  "ParseUnverified demo_library ''hdr.nouser.HS256/s3cret/hdr.nouser'' =
     Inr \<lparr>Method = SigningMethodHS256, Claims = [''role'' \<mapsto> JString ''admin''],
        signing_input = ''hdr.nouser'',
        Signature = demo_HMAC ''HS256'' ''s3cret'' ''hdr.nouser'', Valid = False\<rparr>"
  by (simp add: demo_library_def demo_tokens_def)

lemma demo_claims_values:
  "demo_claims ''user_id'' = Some (JString (uuid_String 7))"
  "demo_claims ''role'' = Some (JString ''admin'')"
  "demo_claims ''exp'' = Some (JNumber 4600)"
  by (simp_all add: demo_claims_def token_claims_def demo_row_def Unix_def Second_def)

lemma demo_HMAC_library: "HMAC demo_library = demo_HMAC"
  by (simp add: demo_library_def)

lemma demo_jwt_Parse_nouser:
  "jwt_Parse demo_library (2000 * Second) ''hdr.nouser.HS256/s3cret/hdr.nouser''
     (keyFunc ''s3cret'')
   = Inr \<lparr>Method = SigningMethodHS256, Claims = [''role'' \<mapsto> JString ''admin''],
        signing_input = ''hdr.nouser'',
        Signature = demo_HMAC ''HS256'' ''s3cret'' ''hdr.nouser'', Valid = True\<rparr>"
  by (simp add: jwt_Parse_def demo_parse_nouser keyFunc_def SigningMethodHS256_def
      demo_HMAC_library Validate_def)

lemma demo_jwt_Parse_login:
  "jwt_Parse demo_library (2000 * Second) ''hdr.login.HS256/s3cret/hdr.login''
     (keyFunc ''s3cret'')
   = Inr \<lparr>Method = SigningMethodHS256, Claims = demo_claims, signing_input = ''hdr.login'',
        Signature = demo_HMAC ''HS256'' ''s3cret'' ''hdr.login'', Valid = True\<rparr>"
  by (simp add: jwt_Parse_def demo_parse_login keyFunc_def SigningMethodHS256_def
      demo_HMAC_library Validate_def demo_claims_values Second_def)

lemma demo_validate_login:
  "validateToken demo_library (2000 * Second) ''hdr.login.HS256/s3cret/hdr.login'' ''s3cret''
   = (7, ''admin'', None)"
  by (simp add: validateToken_def demo_jwt_Parse_login demo_claims_values uuid_Parse_String)

lemma demo_split:
  "strings_Split (GetHeader (demo_context ''Bearer hdr.login.HS256/s3cret/hdr.login'')
     ''Authorization'') CHR '' '' = [''Bearer'', ''hdr.login.HS256/s3cret/hdr.login'']"
  by (simp add: GetHeader_def demo_context_def)

lemma demo_validate_expired:
  "validateToken demo_library (5000 * Second) ''hdr.login.HS256/s3cret/hdr.login'' ''s3cret''
     = (uuid_Nil, [], Some (Sentinel ErrExpiredToken))"
  by (simp add: validateToken_def jwt_Parse_def demo_parse_login keyFunc_def
      SigningMethodHS256_def demo_HMAC_library Validate_def demo_claims_values Second_def)





section \<open>Properties of the item service\<close>

lemma CreateItem_sent:
  "sent (snd (CreateItem conn item)) = sent conn @ [Stmt_InsertItem item]"
  by (cases "server conn (sent conn) (Stmt_InsertItem item)")
     (simp_all add: CreateItem_def exec_def)

lemma UpdateItem_sent:
  "sent (snd (UpdateItem conn item)) = sent conn @ [Stmt_UpdateItem item]"
  by (cases "server conn (sent conn) (Stmt_UpdateItem item)")
     (simp_all add: UpdateItem_def exec_def)

lemma DeleteItem_sent:
  "sent (snd (DeleteItem conn itemID)) = sent conn @ [Stmt_DeleteItem itemID]"
  by (cases "server conn (sent conn) (Stmt_DeleteItem itemID)")
     (simp_all add: DeleteItem_def exec_def)

lemma Service_Create_conn:
  "snd (Service_Create conn name description quantity price) =
   snd (CreateItem conn \<lparr>item_ID = uuid_Nil, Name = name, Description = description,
        Quantity = quantity, Price = price, item_CreatedAt = 0, UpdatedAt = 0\<rparr>)"
  by (simp add: Service_Create_def split: prod.split sum.split)

lemma Service_Update_conn:
  "snd (Service_Update conn itemID name description quantity price) =
   snd (UpdateItem conn \<lparr>item_ID = itemID, Name = name, Description = description,
        Quantity = quantity, Price = price, item_CreatedAt = 0, UpdatedAt = 0\<rparr>)"
  by (simp add: Service_Update_def split: prod.split option.split)

lemma Service_Delete_conn:
  "snd (Service_Delete conn itemID) = snd (DeleteItem conn itemID)"
  by (simp add: Service_Delete_def split: prod.split option.split)

text \<open>
  C1. The statements that reach the connection through the item service: Create sends
  the insert and nothing else, Update the update, Delete the delete. No call of the
  service sends the statement of SetCurrentUser, so the actor's id is not communicated to
  the session before the mutation is issued.
\<close>

theorem C1_service_statements:
  "sent (snd (Service_Create conn name description quantity price)) =
     sent conn @ [Stmt_InsertItem \<lparr>item_ID = uuid_Nil, Name = name, Description = description,
        Quantity = quantity, Price = price, item_CreatedAt = 0, UpdatedAt = 0\<rparr>] \<and>
   sent (snd (Service_Update conn itemID name description quantity price)) =
     sent conn @ [Stmt_UpdateItem \<lparr>item_ID = itemID, Name = name, Description = description,
        Quantity = quantity, Price = price, item_CreatedAt = 0, UpdatedAt = 0\<rparr>] \<and>
   sent (snd (Service_Delete conn itemID)) = sent conn @ [Stmt_DeleteItem itemID]"
  by (simp only: Service_Create_conn Service_Update_conn Service_Delete_conn
      CreateItem_sent UpdateItem_sent DeleteItem_sent simp_thms)

section \<open>Properties of token verification\<close>

lemma jwt_Parse_Valid:
  "jwt_Parse L now tokenStr kf = Inr token \<Longrightarrow> Valid token"
  by (auto simp: jwt_Parse_def split: sum.splits if_splits option.splits)




text \<open>
  C4. A token string that the library parses and that either names a method outside the
  HMAC family (none, or an asymmetric method), or carries the keyed hash of another secret
  where the keyed hash tells that secret from the server's on the signed text:
  verification returns an error with the nil UUID and the empty role, whatever the claims
  of the token are.
\<close>

theorem C4_forged_token:
  assumes "ParseUnverified L tokenStr = Inr t"
    and "(\<exists>a. Method t = SigningMethodOther a) \<or>
         (\<exists>alg secret'. Method t = SigningMethodHMAC alg \<and>
            Signature t = HMAC L alg secret' (signing_input t) \<and>
            HMAC L alg secret' (signing_input t) \<noteq> HMAC L alg secret (signing_input t))"
  shows "\<exists>err. validateToken L now tokenStr secret = (uuid_Nil, [], Some err)"
  using assms
  by (auto simp: validateToken_def jwt_Parse_def keyFunc_def)

theorem C4_forged_token_witness:
  "(\<exists>err. validateToken demo_library (2000 * Second) ''hdr.none.'' ''s3cret''
            = (uuid_Nil, [], Some err)) \<and>
   (\<exists>err. validateToken demo_library (2000 * Second) ''hdr.forged.HS256/guess/hdr.forged''
            ''s3cret'' = (uuid_Nil, [], Some err))"
  using C4_forged_token [OF demo_parse_none, of "''s3cret''" "2000 * Second"]
    C4_forged_token [OF demo_parse_forged, of "''s3cret''" "2000 * Second"]
  by (simp add: SigningMethodHS256_def demo_HMAC_library demo_HMAC_def)

text \<open>
  C10. When the library has parsed and verified a token string: if the claim user_id is
  absent or not a string, or is a string that is not the text of a UUID, or the claim role
  is absent or not a string, verification returns the nil UUID, the empty role and
  ErrInvalidToken; and whenever verification succeeds, the user id is the UUID parsed
  from the string claim user_id and the role is the string claim role.
\<close>

theorem C10_claims_checked:
  assumes "jwt_Parse L now tokenStr (keyFunc secret) = Inr token"
  shows "((\<nexists>s. Claims token ''user_id'' = Some (JString s)) \<or>
          (\<exists>s. Claims token ''user_id'' = Some (JString s) \<and> uuid_Parse s = None) \<or>
          (\<nexists>r. Claims token ''role'' = Some (JString r))
          \<longrightarrow> validateToken L now tokenStr secret = (uuid_Nil, [], Some (Sentinel ErrInvalidToken)))
       \<and> (\<forall>userID role. validateToken L now tokenStr secret = (userID, role, None) \<longrightarrow>
            (\<exists>s. Claims token ''user_id'' = Some (JString s) \<and> uuid_Parse s = Some userID) \<and>
            Claims token ''role'' = Some (JString role))"
  using assms jwt_Parse_Valid [OF assms]
  by (auto simp: validateToken_def split: option.splits json.splits)

theorem C10_claims_checked_witness:
  "validateToken demo_library (2000 * Second) ''hdr.nouser.HS256/s3cret/hdr.nouser'' ''s3cret''
     = (uuid_Nil, [], Some (Sentinel ErrInvalidToken)) \<and>
   (\<exists>s. demo_claims ''user_id'' = Some (JString s) \<and> uuid_Parse s = Some 7) \<and>
   demo_claims ''role'' = Some (JString ''admin'')"
  using C10_claims_checked [OF demo_jwt_Parse_nouser] C10_claims_checked [OF demo_jwt_Parse_login]
  by (simp add: demo_validate_login)

section \<open>Properties of the authentication middleware\<close>

lemma Auth_cases:
  "Auth L now secret ttl next c =
     (case strings_Split (GetHeader c ''Authorization'') CHR '' '' of
        [scheme, tok] \<Rightarrow>
          (if scheme = ''Bearer'' then
             (case validateToken L now tok secret of
                (userID, role, Some err) \<Rightarrow> FailAbort c 401 err
              | (userID, role, None) \<Rightarrow>
                  next (ctx_Set (ctx_Set c ''userID'' (VUUID userID)) ''role'' (VString role)))
           else FailAbort c 401 (Sentinel ErrInvalidTokenFormat))
      | _ \<Rightarrow> FailAbort c 401
               (if GetHeader c ''Authorization'' = [] then Sentinel ErrNoToken
                else Sentinel ErrInvalidTokenFormat))"
  by (cases "GetHeader c ''Authorization'' = []")
     (auto simp: Auth_def StatusUnauthorized_def Let_def split: list.splits)

text \<open>
  C7. For every request the middleware does one of two things. Either the header is
  "Bearer" and a token whose verification succeeds, and then the rest of the chain runs on
  the context with both userID and role set; or there is no such token, and then the
  middleware answers 401 with an error whatever the rest of the chain is (the rest of the
  chain is not run), sets the abort flag and leaves the keys of the context as they were.
  In particular, when the verification of the token reports ErrExpiredToken, the answer is
  401 with ErrExpiredToken, whatever the rest of the chain is.
\<close>

theorem C7_all_or_nothing:
  "((\<exists>tok userID role.
       strings_Split (GetHeader c ''Authorization'') CHR '' '' = [''Bearer'', tok] \<and>
       validateToken L now tok secret = (userID, role, None) \<and>
       Auth L now secret ttl next c =
         next (c\<lparr>keys := (keys c)(''userID'' \<mapsto> VUUID userID, ''role'' \<mapsto> VString role)\<rparr>))
    \<or>
    ((\<nexists>tok userID role.
       strings_Split (GetHeader c ''Authorization'') CHR '' '' = [''Bearer'', tok] \<and>
       validateToken L now tok secret = (userID, role, None)) \<and>
     (\<exists>err. \<forall>next'. Auth L now secret ttl next' c = FailAbort c 401 err) \<and>
     keys (Auth L now secret ttl next c) = keys c \<and>
     aborted (Auth L now secret ttl next c))) \<and>
   (\<forall>tok. strings_Split (GetHeader c ''Authorization'') CHR '' '' = [''Bearer'', tok] \<and>
       validateToken L now tok secret = (uuid_Nil, [], Some (Sentinel ErrExpiredToken)) \<longrightarrow>
       (\<forall>next'. Auth L now secret ttl next' c = FailAbort c 401 (Sentinel ErrExpiredToken)))"
  by (auto simp: Auth_cases ctx_Set_def FailAbort_def Fail_def Abort_def JSON_def
      split: list.splits option.splits prod.splits)

theorem C7_all_or_nothing_witness:
  "Auth demo_library (2000 * Second) ''s3cret'' (3600 * Second)
      (\<lambda>c. ctx_Set c ''reached'' VOther)
      (demo_context ''Bearer hdr.login.HS256/s3cret/hdr.login'')
    = ctx_Set ((demo_context ''Bearer hdr.login.HS256/s3cret/hdr.login'')
         \<lparr>keys := [''userID'' \<mapsto> VUUID 7, ''role'' \<mapsto> VString ''admin'']\<rparr>)
        ''reached'' VOther \<and>
   Auth demo_library (5000 * Second) ''s3cret'' (3600 * Second)
      (\<lambda>c. ctx_Set c ''reached'' VOther)
      (demo_context ''Bearer hdr.login.HS256/s3cret/hdr.login'')
    = FailAbort (demo_context ''Bearer hdr.login.HS256/s3cret/hdr.login'') 401
        (Sentinel ErrExpiredToken)"
  using C7_all_or_nothing [of "demo_context ''Bearer hdr.login.HS256/s3cret/hdr.login''" demo_library
      "5000 * Second" "''s3cret''" "3600 * Second" "\<lambda>c. ctx_Set c ''reached'' VOther"]
    C7_all_or_nothing [of "demo_context ''Bearer hdr.login.HS256/s3cret/hdr.login''" demo_library
      "2000 * Second" "''s3cret''" "3600 * Second" "\<lambda>c. ctx_Set c ''reached'' VOther"]
  by (simp add: demo_split demo_validate_expired demo_validate_login)
     (simp add: demo_context_def)

section \<open>Properties of login\<close>

lemma find_None_list_ex: "find P xs = None \<longleftrightarrow> \<not> list_ex P xs"
  by (induction xs) auto

text \<open>
  C6. With a working store, a login for a username that no row has and a login for a
  username that a row has, with a password the stored hash does not match, both give
  ErrInvalidCredentials from the service and the same response from the handler: 401 with
  the message "invalid credentials".
\<close>

theorem C6_login_indistinguishable:
  assumes "fault db = None"
    and "\<not> list_ex (\<lambda>u. Username u = absent) (users db)"
    and "find (\<lambda>u. Username u = present) (users db) = Some user"
    and "verifyPassword B wrong (PasswordHash user) = Some e"
    and "absent \<noteq> []" and "present \<noteq> []" and "pw \<noteq> []" and "wrong \<noteq> []"
  shows "Login L B cfg t1 t2 db absent pw = Inl (Sentinel ErrInvalidCredentials) \<and>
         Login L B cfg t1' t2' db present wrong = Inl (Sentinel ErrInvalidCredentials) \<and>
         Handler_Login L B cfg t1 t2 db
             (Some \<lparr>login_Username = absent, login_Password = pw\<rparr>) c
           = Fail c 401 (Errorf ''invalid credentials'' []) \<and>
         Handler_Login L B cfg t1' t2' db
             (Some \<lparr>login_Username = present, login_Password = wrong\<rparr>) c
           = Fail c 401 (Errorf ''invalid credentials'' [])"
proof -
  have a: "Login L B cfg t1 t2 db absent pw = Inl (Sentinel ErrInvalidCredentials)"
    using assms(1,2) by (simp add: Login_def GetUserByUsername_def find_None_list_ex [symmetric])
  have b: "Login L B cfg t1' t2' db present wrong = Inl (Sentinel ErrInvalidCredentials)"
    using assms(1,3,4) by (simp add: Login_def GetUserByUsername_def)
  show ?thesis
    using assms(5-8) by (simp add: a b Handler_Login_def StatusUnauthorized_def)
qed

theorem C6_login_indistinguishable_witness:
  "Handler_Login demo_library demo_bcrypt demo_cfg (1000 * Second) (1000 * Second)
       demo_db_alice (Some \<lparr>login_Username = ''bob'', login_Password = ''pw1''\<rparr>)
       (demo_context [])
     = Fail (demo_context []) 401 (Errorf ''invalid credentials'' []) \<and>
   Handler_Login demo_library demo_bcrypt demo_cfg (1000 * Second) (1000 * Second)
       demo_db_alice (Some \<lparr>login_Username = ''alice'', login_Password = ''guess''\<rparr>)
       (demo_context [])
     = Fail (demo_context []) 401 (Errorf ''invalid credentials'' [])"
  using C6_login_indistinguishable [of demo_db_alice "''bob''" "''alice''" demo_row demo_bcrypt
      "''guess''" "Errorf ''hashedPassword is not the hash of the given password'' []"
      "''pw1''" demo_library demo_cfg "1000 * Second" "1000 * Second" "1000 * Second"
      "1000 * Second" "demo_context []"]
  by (simp add: demo_db_alice_def demo_db_def demo_row_def verifyPassword_def demo_bcrypt_def)

section \<open>Properties of the issued claims\<close>

text \<open>
  C9, as stated, fails: with a time to live of 1.5 seconds and both clock readings at 0.6
  seconds, exp is 2 and iat is 0, and 2 seconds is not 0 seconds plus 1.5 seconds.
\<close>

theorem C9_counterexample:
  "token_claims demo_row 600000000 600000000 1500000000 ''exp'' = Some (JNumber 2) \<and>
   token_claims demo_row 600000000 600000000 1500000000 ''iat'' = Some (JNumber 0) \<and>
   (2::int) * Second \<noteq> 0 * Second + 1500000000"
  by (simp add: token_claims_def Unix_def Second_def)

text \<open>
  C9, amended. exp is the whole seconds of the first clock reading plus the time to
  live, iat is the whole seconds of the second clock reading; when the time to live is a
  whole number of seconds and both readings fall in the same second, exp is iat plus the
  time to live in seconds.
\<close>

theorem C9_expiry_claim:
  "token_claims user t1 t2 ttl ''exp'' = Some (JNumber (Unix (t1 + ttl))) \<and>
   token_claims user t1 t2 ttl ''iat'' = Some (JNumber (Unix t2)) \<and>
   (ttl mod Second = 0 \<and> Unix t1 = Unix t2 \<longrightarrow>
      Unix (t1 + ttl) = Unix t2 + ttl div Second)"
proof -
  have "Unix (t1 + ttl) = Unix t1 + ttl div Second" if "ttl mod Second = 0"
  proof -
    from that have "Second dvd ttl"
      by (simp add: dvd_eq_mod_eq_0)
    then obtain k where k: "ttl = k * Second"
      by (auto simp: dvd_def mult.commute)
    show ?thesis
      by (simp add: Unix_def k Second_def)
  qed
  then show ?thesis
    by (auto simp: token_claims_def)
qed

theorem C9_expiry_claim_witness:
  "token_claims demo_row 1500000000 1900000000 (3600 * Second) ''exp'' = Some (JNumber 3601) \<and>
   token_claims demo_row 1500000000 1900000000 (3600 * Second) ''iat'' = Some (JNumber 1) \<and>
   (3600 * Second) mod Second = 0 \<and> Unix 1500000000 = Unix 1900000000 \<and>
   Unix (1500000000 + 3600 * Second) = Unix 1900000000 + 3600 * Second div Second"
  using C9_expiry_claim [of demo_row 1500000000 1900000000 "3600 * Second"]
  by (simp add: Unix_def Second_def)

section \<open>Properties of registration\<close>








section \<open>The round trip of login and verification\<close>




end
